theory Spec2Isabelle
  imports Complex_Main "HOL-Library.Multiset"
begin

section \<open>Values, rows and exceptions\<close>

text \<open>
  The backend of ClearTrack (\<^verbatim>\<open>src/backend/main.py\<close>) stores holdings, per-holding price
  snapshots and portfolio-level history rows, and prices holdings through an external
  market-data provider.

  Python floats are idealised as \<^typ>\<open>real\<close>: the development is about which rows are
  written and which sums are formed, not about rounding. A \<^verbatim>\<open>datetime\<close> is the number of
  microseconds since the epoch, so \<^verbatim>\<open>timedelta(days=30)\<close> is a fixed integer.
\<close>

type_synonym datetime = int

datatype py_exception =
    HTTPException int string
  | ZeroDivisionError
  | ProviderError
  | RuntimeFault

text \<open>The three tables (\<^verbatim>\<open>Holding\<close>, \<^verbatim>\<open>PriceSnapshot\<close>, \<^verbatim>\<open>PortfolioHistory\<close>).
  The foreign key \<^verbatim>\<open>holding_id\<close> is a nullable column.\<close>

record Holding =
  h_id :: int
  h_ticker :: string
  h_shares :: real
  h_purchase_price :: real
  h_created_at :: datetime

record PriceSnapshot =
  ps_id :: int
  ps_holding_id :: "int option"
  ps_price :: real
  ps_date :: datetime

record PortfolioHistory =
  ph_id :: int
  ph_date :: datetime
  ph_total_value :: real
  ph_total_invested :: real
  ph_profit_loss :: real

record database =
  holdings :: "Holding list"
  price_snapshots :: "PriceSnapshot list"
  portfolio_history :: "PortfolioHistory list"

text \<open>The request and response models (\<^verbatim>\<open>HoldingCreate\<close>, \<^verbatim>\<open>HoldingResponse\<close>,
  \<^verbatim>\<open>PortfolioSummary\<close>, \<^verbatim>\<open>PortfolioHistoryResponse\<close>).\<close>

record HoldingCreate =
  c_ticker :: string
  c_shares :: real
  c_purchase_price :: real

record HoldingResponse =
  r_id :: int
  r_ticker :: string
  r_shares :: real
  r_purchase_price :: real
  r_current_price :: real
  r_current_value :: real
  r_total_cost :: real
  r_created_at :: datetime

record PortfolioSummary =
  total_invested :: real
  current_value :: real
  holdings_count :: nat
  profit_loss :: real
  profit_loss_percent :: real

record PortfolioHistoryResponse =
  hr_date :: string
  hr_profit_loss :: real

section \<open>Price lookup\<close>

text \<open>
  The market-data provider is the environment: for a ticker,
  \<^verbatim>\<open>yf.Ticker(ticker).history(period="1d")\<close> either raises or yields a frame whose
  \<^verbatim>\<open>Close\<close> column is a (possibly empty) list of prices, oldest first.
\<close>

datatype yf_history = YfRaises | YfFrame "real list"

type_synonym provider = "string \<Rightarrow> yf_history"

text \<open>The body of the \<^verbatim>\<open>try\<close> block of \<^verbatim>\<open>get_current_price\<close>.\<close>

definition get_current_price_try :: "provider \<Rightarrow> string \<Rightarrow> py_exception + real" where
  "get_current_price_try yf ticker =
     (case yf ticker of
        YfRaises \<Rightarrow> Inl ProviderError
      | YfFrame closes \<Rightarrow> (if closes \<noteq> [] then Inr (last closes) else Inr 0))"

text \<open>\<^verbatim>\<open>except Exception: return 0.0\<close> turns every exception of the body into the
  value \<open>0\<close>.\<close>

definition get_current_price :: "provider \<Rightarrow> string \<Rightarrow> py_exception + real" where
  "get_current_price yf ticker =
     (case get_current_price_try yf ticker of
        Inl e \<Rightarrow> Inr 0
      | Inr p \<Rightarrow> Inr p)"

text \<open>The price a caller of \<^verbatim>\<open>get_current_price\<close> works with.\<close>

definition current_price_of :: "provider \<Rightarrow> string \<Rightarrow> real" where
  "current_price_of yf ticker =
     (case get_current_price yf ticker of Inl e \<Rightarrow> 0 | Inr p \<Rightarrow> p)"

section \<open>Portfolio summary\<close>

text \<open>Python's \<^verbatim>\<open>/\<close> on floats raises \<^verbatim>\<open>ZeroDivisionError\<close> for a zero divisor.\<close>

definition py_truediv :: "real \<Rightarrow> real \<Rightarrow> py_exception + real" where
  "py_truediv a b = (if b = 0 then Inl ZeroDivisionError else Inr (a / b))"

text \<open>The loop of \<^verbatim>\<open>get_portfolio_summary\<close>, with the accumulators
  \<^verbatim>\<open>(total_invested, current_value)\<close>.\<close>

fun summary_loop :: "provider \<Rightarrow> Holding list \<Rightarrow> real \<times> real \<Rightarrow> py_exception + real \<times> real" where
  "summary_loop yf [] acc = Inr acc"
| "summary_loop yf (h # hs) (ti, cv) =
     (case get_current_price yf (h_ticker h) of
        Inl e \<Rightarrow> Inl e
      | Inr cp \<Rightarrow>
          summary_loop yf hs (ti + h_purchase_price h * h_shares h, cv + cp * h_shares h))"

definition get_portfolio_summary :: "provider \<Rightarrow> database \<Rightarrow> py_exception + PortfolioSummary" where
  "get_portfolio_summary yf db =
     (let hs = holdings db in
      case summary_loop yf hs (0, 0) of
        Inl e \<Rightarrow> Inl e
      | Inr (ti, cv) \<Rightarrow>
          (let pl = cv - ti in
           case (if ti > 0
                 then (case py_truediv pl ti of Inl e \<Rightarrow> Inl e | Inr q \<Rightarrow> Inr (q * 100))
                 else Inr 0) of
             Inl e \<Rightarrow> Inl e
           | Inr pct \<Rightarrow>
               Inr \<lparr>total_invested = ti, current_value = cv, holdings_count = length hs,
                    profit_loss = pl, profit_loss_percent = pct\<rparr>))"

section \<open>The persistence layer\<close>

text \<open>
  A SQLAlchemy session (created with \<^verbatim>\<open>autocommit=False, autoflush=False\<close>) is a unit
  of work: \<^verbatim>\<open>db.add\<close> and \<^verbatim>\<open>db.delete\<close> only register a change with the session,
  \<^verbatim>\<open>db.commit()\<close> writes the registered changes to the tables in one transaction, and
  \<^verbatim>\<open>db.close()\<close> drops whatever was registered and not committed. A registered row has
  every column but its primary key, which the database assigns on insertion.
\<close>

datatype pending =
    NewHolding string real real datetime
  | NewPriceSnapshot int real datetime
  | NewPortfolioHistory datetime real real real
  | DeletedHolding int

type_synonym session = "pending list"

text \<open>Primary keys are allocated as the largest key of the table plus one (the default
  of SQLite, the store of the default \<^verbatim>\<open>DATABASE_URL\<close>).\<close>

definition next_id :: "int list \<Rightarrow> int" where
  "next_id ids = fold max ids 0 + 1"

text \<open>
  Writing one registered change. Line 35, \<^verbatim>\<open>snapshots = relationship("PriceSnapshot",
  back_populates="holding")\<close>, declares no \<^verbatim>\<open>delete\<close> cascade: on deleting a holding the
  unit of work issues \<^verbatim>\<open>DELETE FROM holdings WHERE id = ?\<close> and de-associates the
  holding's snapshots by setting their \<^verbatim>\<open>holding_id\<close> to \<^verbatim>\<open>NULL\<close>; it deletes no
  snapshot row.
\<close>

fun flush :: "database \<Rightarrow> pending \<Rightarrow> database" where
  "flush db (NewHolding t s p c) =
     db\<lparr>holdings := holdings db @
        [\<lparr>h_id = next_id (map h_id (holdings db)), h_ticker = t, h_shares = s,
          h_purchase_price = p, h_created_at = c\<rparr>]\<rparr>"
| "flush db (NewPriceSnapshot hid p d) =
     db\<lparr>price_snapshots := price_snapshots db @
        [\<lparr>ps_id = next_id (map ps_id (price_snapshots db)), ps_holding_id = Some hid,
          ps_price = p, ps_date = d\<rparr>]\<rparr>"
| "flush db (NewPortfolioHistory d tv ti pl) =
     db\<lparr>portfolio_history := portfolio_history db @
        [\<lparr>ph_id = next_id (map ph_id (portfolio_history db)), ph_date = d,
          ph_total_value = tv, ph_total_invested = ti, ph_profit_loss = pl\<rparr>]\<rparr>"
| "flush db (DeletedHolding hid) =
     db\<lparr>holdings := filter (\<lambda>h. h_id h \<noteq> hid) (holdings db),
        price_snapshots :=
          map (\<lambda>s. if ps_holding_id s = Some hid then s\<lparr>ps_holding_id := None\<rparr> else s)
            (price_snapshots db)\<rparr>"

definition db_add :: "pending \<Rightarrow> session \<Rightarrow> session" where
  "db_add obj s = s @ [obj]"

definition db_commit :: "session \<Rightarrow> database \<Rightarrow> database" where
  "db_commit s db = foldl flush db s"

section \<open>The snapshot job\<close>

text \<open>
  The job wraps its work in \<^verbatim>\<open>try: ... except Exception as e: print(...) finally:
  db.close()\<close>. To say what happens when an exception is raised inside the \<^verbatim>\<open>try\<close>
  block, a run takes the point at which one is raised, if any: while loading the
  holdings, in iteration \<open>i\<close> of the loop before or after \<^verbatim>\<open>db.add(snapshot)\<close>, while
  building the history row, or inside \<^verbatim>\<open>db.commit()\<close> (which then writes nothing).
  \<^verbatim>\<open>utcnow k\<close> is the clock reading of the \<open>k\<close>-th call of \<^verbatim>\<open>datetime.utcnow()\<close>.
\<close>

datatype raise_point = AtLoad | AtFetch nat | AtAccumulate nat | AtHistory | AtCommit

text \<open>The \<^verbatim>\<open>for\<close> loop: the state is the session and the accumulators
  \<^verbatim>\<open>(portfolio_value, portfolio_invested)\<close>; the result says whether an exception
  left the loop, and with which state.\<close>

fun snapshot_loop ::
  "provider \<Rightarrow> (nat \<Rightarrow> datetime) \<Rightarrow> raise_point option \<Rightarrow> nat \<Rightarrow> Holding list
     \<Rightarrow> session \<times> real \<times> real \<Rightarrow> py_exception option \<times> session \<times> real \<times> real" where
  "snapshot_loop yf utcnow fault i [] st = (None, st)"
| "snapshot_loop yf utcnow fault i (h # hs) (s, pv, pinv) =
     (if fault = Some (AtFetch i) then (Some RuntimeFault, s, pv, pinv)
      else
        (case get_current_price yf (h_ticker h) of
           Inl e \<Rightarrow> (Some e, s, pv, pinv)
         | Inr cp \<Rightarrow>
             (let s' = db_add (NewPriceSnapshot (h_id h) cp (utcnow i)) s in
              if fault = Some (AtAccumulate i) then (Some RuntimeFault, s', pv, pinv)
              else snapshot_loop yf utcnow fault (Suc i) hs
                     (s', pv + cp * h_shares h, pinv + h_purchase_price h * h_shares h))))"

text \<open>The \<^verbatim>\<open>try\<close> block: the exception that left it (if any), the session and the
  tables at that moment.\<close>

definition update_price_snapshots_try ::
  "provider \<Rightarrow> (nat \<Rightarrow> datetime) \<Rightarrow> raise_point option \<Rightarrow> database
     \<Rightarrow> py_exception option \<times> session \<times> database" where
  "update_price_snapshots_try yf utcnow fault db =
     (if fault = Some AtLoad then (Some RuntimeFault, [], db)
      else
        (let hs = holdings db in
         case snapshot_loop yf utcnow fault 0 hs ([], 0, 0) of
           (Some e, s, pv, pinv) \<Rightarrow> (Some e, s, db)
         | (None, s, pv, pinv) \<Rightarrow>
             (if fault = Some AtHistory then (Some RuntimeFault, s, db)
              else
                (let s' = db_add (NewPortfolioHistory (utcnow (length hs)) pv pinv (pv - pinv)) s in
                 if fault = Some AtCommit then (Some RuntimeFault, s', db)
                 else (None, [], db_commit s' db)))))"

text \<open>The whole job: what it prints (the exceptions it caught) and the tables after
  \<^verbatim>\<open>db.close()\<close>, which discards the session.\<close>

definition update_price_snapshots ::
  "provider \<Rightarrow> (nat \<Rightarrow> datetime) \<Rightarrow> raise_point option \<Rightarrow> database
     \<Rightarrow> py_exception list \<times> database" where
  "update_price_snapshots yf utcnow fault db =
     (case update_price_snapshots_try yf utcnow fault db of
        (Some e, s, db') \<Rightarrow> ([e], db')
      | (None, s, db') \<Rightarrow> ([], db'))"

section \<open>The API operations\<close>

fun get_holdings_loop ::
  "provider \<Rightarrow> Holding list \<Rightarrow> HoldingResponse list \<Rightarrow> py_exception + HoldingResponse list" where
  "get_holdings_loop yf [] response = Inr response"
| "get_holdings_loop yf (h # hs) response =
     (case get_current_price yf (h_ticker h) of
        Inl e \<Rightarrow> Inl e
      | Inr cp \<Rightarrow>
          get_holdings_loop yf hs
            (response @
              [\<lparr>r_id = h_id h, r_ticker = h_ticker h, r_shares = h_shares h,
                r_purchase_price = h_purchase_price h, r_current_price = cp,
                r_current_value = cp * h_shares h,
                r_total_cost = h_purchase_price h * h_shares h,
                r_created_at = h_created_at h\<rparr>]))"

definition get_holdings :: "provider \<Rightarrow> database \<Rightarrow> py_exception + HoldingResponse list" where
  "get_holdings yf db = get_holdings_loop yf (holdings db) []"

text \<open>\<^verbatim>\<open>create_holding\<close>: \<open>now\<close> is the clock reading of the \<^verbatim>\<open>created_at\<close> default;
  \<^verbatim>\<open>db.refresh\<close> reads the inserted row back.\<close>

definition create_holding ::
  "provider \<Rightarrow> datetime \<Rightarrow> HoldingCreate \<Rightarrow> database
     \<Rightarrow> (py_exception + HoldingResponse) \<times> database" where
  "create_holding yf now holding db =
     (case get_current_price yf (c_ticker holding) of
        Inl e \<Rightarrow> (Inl e, db)
      | Inr cp \<Rightarrow>
          (if cp = 0 then (Inl (HTTPException 400 ''Invalid ticker symbol''), db)
           else
             (let s = db_add (NewHolding (c_ticker holding) (c_shares holding)
                                (c_purchase_price holding) now) [];
                  db' = db_commit s db;
                  db_holding = last (holdings db')
              in (Inr \<lparr>r_id = h_id db_holding, r_ticker = h_ticker db_holding,
                       r_shares = h_shares db_holding,
                       r_purchase_price = h_purchase_price db_holding,
                       r_current_price = cp,
                       r_current_value = cp * h_shares db_holding,
                       r_total_cost = h_purchase_price db_holding * h_shares db_holding,
                       r_created_at = h_created_at db_holding\<rparr>, db'))))"

definition delete_holding :: "int \<Rightarrow> database \<Rightarrow> (py_exception + string) \<times> database" where
  "delete_holding holding_id db =
     (case find (\<lambda>h. h_id h = holding_id) (holdings db) of
        None \<Rightarrow> (Inl (HTTPException 404 ''Holding not found''), db)
      | Some holding \<Rightarrow>
          (let s = db_add (DeletedHolding (h_id holding)) []
           in (Inr ''Holding deleted'', db_commit s db)))"

text \<open>\<^verbatim>\<open>get_portfolio_history\<close>: \<open>now\<close> is the clock reading, \<open>strftime\<close> the formatting
  of a date as \<^verbatim>\<open>%Y-%m-%d\<close>. The query is \<open>history_query\<close>.\<close>

definition thirty_days :: int where
  "thirty_days = 30 * 86400 * 1000000"

definition history_query :: "datetime \<Rightarrow> database \<Rightarrow> PortfolioHistory list" where
  "history_query now db =
     (let thirty_days_ago = now - thirty_days
      in sort_key ph_date (filter (\<lambda>e. ph_date e \<ge> thirty_days_ago) (portfolio_history db)))"

definition get_portfolio_history ::
  "(datetime \<Rightarrow> string) \<Rightarrow> datetime \<Rightarrow> database \<Rightarrow> PortfolioHistoryResponse list" where
  "get_portfolio_history strftime now db =
     map (\<lambda>entry. \<lparr>hr_date = strftime (ph_date entry), hr_profit_loss = ph_profit_loss entry\<rparr>)
       (history_query now db)"

section \<open>The price lookup and the summary: facts\<close>

lemma get_current_price_Inr: "get_current_price yf t = Inr (current_price_of yf t)"
  by (simp add: current_price_of_def get_current_price_def split: sum.splits)

lemma summary_loop_sums:
  "summary_loop yf hs (ti, cv) =
     Inr (ti + (\<Sum>h\<leftarrow>hs. h_purchase_price h * h_shares h),
          cv + (\<Sum>h\<leftarrow>hs. current_price_of yf (h_ticker h) * h_shares h))"
  by (induction hs arbitrary: ti cv) (simp_all add: get_current_price_Inr add.assoc)

lemma summary_value:
  "get_portfolio_summary yf db =
     Inr \<lparr>total_invested = (\<Sum>h\<leftarrow>holdings db. h_purchase_price h * h_shares h),
          current_value = (\<Sum>h\<leftarrow>holdings db. current_price_of yf (h_ticker h) * h_shares h),
          holdings_count = length (holdings db),
          profit_loss = (\<Sum>h\<leftarrow>holdings db. current_price_of yf (h_ticker h) * h_shares h)
                        - (\<Sum>h\<leftarrow>holdings db. h_purchase_price h * h_shares h),
          profit_loss_percent =
            (if (\<Sum>h\<leftarrow>holdings db. h_purchase_price h * h_shares h) > 0
             then ((\<Sum>h\<leftarrow>holdings db. current_price_of yf (h_ticker h) * h_shares h)
                   - (\<Sum>h\<leftarrow>holdings db. h_purchase_price h * h_shares h))
                  / (\<Sum>h\<leftarrow>holdings db. h_purchase_price h * h_shares h) * 100
             else 0)\<rparr>"
  by (simp add: get_portfolio_summary_def summary_loop_sums py_truediv_def Let_def)

text \<open>
  Claim C5. For every ticker, the price lookup returns the latest (last) closing price
  when the provider has data, and returns \<open>0\<close> when the provider has no data (which is
  also what an invalid symbol gives) or when the call fails; it always returns a value
  and never an exception.
\<close>

theorem get_current_price_total:
  "(\<exists>p. get_current_price yf ticker = Inr p)
   \<and> (\<forall>closes. yf ticker = YfFrame closes \<and> closes \<noteq> []
         \<longrightarrow> get_current_price yf ticker = Inr (last closes))
   \<and> (yf ticker = YfFrame [] \<longrightarrow> get_current_price yf ticker = Inr 0)
   \<and> (yf ticker = YfRaises \<longrightarrow> get_current_price yf ticker = Inr 0)
   \<and> (\<forall>e. get_current_price_try yf ticker = Inl e \<longrightarrow> get_current_price yf ticker = Inr 0)"
  by (auto simp: get_current_price_def get_current_price_try_def split: yf_history.splits)

theorem get_current_price_total_witness:
  "get_current_price (\<lambda>t. if t = ''AAA'' then YfFrame [7, 8] else if t = ''BBB'' then YfFrame [] else YfRaises) ''AAA'' = Inr 8
   \<and> get_current_price (\<lambda>t. if t = ''AAA'' then YfFrame [7, 8] else if t = ''BBB'' then YfFrame [] else YfRaises) ''BBB'' = Inr 0
   \<and> get_current_price (\<lambda>t. if t = ''AAA'' then YfFrame [7, 8] else if t = ''BBB'' then YfFrame [] else YfRaises) ''ZZZ'' = Inr 0"
  using get_current_price_total
    [of "\<lambda>t. if t = ''AAA'' then YfFrame [7, 8] else if t = ''BBB'' then YfFrame [] else YfRaises" "''AAA''"]
    get_current_price_total
    [of "\<lambda>t. if t = ''AAA'' then YfFrame [7, 8] else if t = ''BBB'' then YfFrame [] else YfRaises" "''BBB''"]
    get_current_price_total
    [of "\<lambda>t. if t = ''AAA'' then YfFrame [7, 8] else if t = ''BBB'' then YfFrame [] else YfRaises" "''ZZZ''"]
  by simp

text \<open>
  Claim C3. For every stored list of holdings and every provider, the portfolio summary
  returns \<open>total_invested\<close> = the sum of \<open>purchase_price * shares\<close>, \<open>current_value\<close> =
  the sum of \<open>current_price * shares\<close>, \<open>holdings_count\<close> = the number of holdings and
  \<open>profit_loss = current_value - total_invested\<close>. For the single holding with 10 shares
  bought at 5 and a current price of 8 it returns 50, 80, 30 and 60 percent.
\<close>

theorem portfolio_summary_totals:
  "(\<exists>s. get_portfolio_summary yf db = Inr s
        \<and> total_invested s = (\<Sum>h\<leftarrow>holdings db. h_purchase_price h * h_shares h)
        \<and> current_value s = (\<Sum>h\<leftarrow>holdings db. current_price_of yf (h_ticker h) * h_shares h)
        \<and> holdings_count s = length (holdings db)
        \<and> profit_loss s = current_value s - total_invested s)
   \<and> get_portfolio_summary (\<lambda>t. YfFrame [8])
        \<lparr>holdings = [\<lparr>h_id = 1, h_ticker = ''AAA'', h_shares = 10, h_purchase_price = 5,
                       h_created_at = 0\<rparr>],
         price_snapshots = [], portfolio_history = []\<rparr>
       = Inr \<lparr>total_invested = 50, current_value = 80, holdings_count = 1,
              profit_loss = 30, profit_loss_percent = 60\<rparr>"
proof
  show "\<exists>s. get_portfolio_summary yf db = Inr s
        \<and> total_invested s = (\<Sum>h\<leftarrow>holdings db. h_purchase_price h * h_shares h)
        \<and> current_value s = (\<Sum>h\<leftarrow>holdings db. current_price_of yf (h_ticker h) * h_shares h)
        \<and> holdings_count s = length (holdings db)
        \<and> profit_loss s = current_value s - total_invested s"
    by (simp add: summary_value)
next
  have p: "current_price_of (\<lambda>t. YfFrame [8]) ''AAA'' = 8"
    by (simp add: current_price_of_def get_current_price_def get_current_price_try_def)
  show "get_portfolio_summary (\<lambda>t. YfFrame [8])
        \<lparr>holdings = [\<lparr>h_id = 1, h_ticker = ''AAA'', h_shares = 10, h_purchase_price = 5,
                       h_created_at = 0\<rparr>],
         price_snapshots = [], portfolio_history = []\<rparr>
       = Inr \<lparr>total_invested = 50, current_value = 80, holdings_count = 1,
              profit_loss = 30, profit_loss_percent = 60\<rparr>"
    by (simp add: summary_value p)
qed

text \<open>
  Claim C4. The summary always returns a value (the division never raises
  \<^verbatim>\<open>ZeroDivisionError\<close>); its \<open>profit_loss_percent\<close> is
  \<open>profit_loss / total_invested * 100\<close> whenever \<open>total_invested > 0\<close>, and exactly \<open>0\<close>
  when \<open>total_invested = 0\<close>, whatever \<open>current_value\<close> is.
\<close>

theorem profit_loss_percent_guarded:
  "\<exists>s. get_portfolio_summary yf db = Inr s
       \<and> (total_invested s > 0
            \<longrightarrow> profit_loss_percent s = profit_loss s / total_invested s * 100)
       \<and> (total_invested s = 0 \<longrightarrow> profit_loss_percent s = 0)"
  by (simp add: summary_value)

theorem profit_loss_percent_guarded_witness:
  "(\<exists>s. get_portfolio_summary (\<lambda>t. YfFrame [8])
          \<lparr>holdings = [\<lparr>h_id = 1, h_ticker = ''AAA'', h_shares = 10, h_purchase_price = 5,
                         h_created_at = 0\<rparr>],
           price_snapshots = [], portfolio_history = []\<rparr> = Inr s
        \<and> total_invested s > 0 \<and> profit_loss_percent s = 60)
   \<and> (\<exists>s. get_portfolio_summary (\<lambda>t. YfFrame [8])
          \<lparr>holdings = [\<lparr>h_id = 1, h_ticker = ''AAA'', h_shares = 2, h_purchase_price = 0,
                         h_created_at = 0\<rparr>],
           price_snapshots = [], portfolio_history = []\<rparr> = Inr s
        \<and> total_invested s = 0 \<and> current_value s = 16 \<and> profit_loss_percent s = 0)"
proof -
  have p: "current_price_of (\<lambda>t. YfFrame [8]) ''AAA'' = 8"
    by (simp add: current_price_of_def get_current_price_def get_current_price_try_def)
  show ?thesis
    using profit_loss_percent_guarded [of "\<lambda>t. YfFrame [8]"
        "\<lparr>holdings = [\<lparr>h_id = 1, h_ticker = ''AAA'', h_shares = 10, h_purchase_price = 5,
                         h_created_at = 0\<rparr>],
           price_snapshots = [], portfolio_history = []\<rparr>"]
      profit_loss_percent_guarded [of "\<lambda>t. YfFrame [8]"
        "\<lparr>holdings = [\<lparr>h_id = 1, h_ticker = ''AAA'', h_shares = 2, h_purchase_price = 0,
                         h_created_at = 0\<rparr>],
           price_snapshots = [], portfolio_history = []\<rparr>"]
    by (simp add: summary_value p)
qed

section \<open>The snapshot job in a run without exception\<close>

lemma snapshot_loop_ok:
  "snapshot_loop yf clk None i hs (s, pv, pinv) =
     (None,
      s @ map (\<lambda>(k, h). NewPriceSnapshot (h_id h) (current_price_of yf (h_ticker h)) (clk k))
            (zip [i..<i + length hs] hs),
      pv + (\<Sum>h\<leftarrow>hs. current_price_of yf (h_ticker h) * h_shares h),
      pinv + (\<Sum>h\<leftarrow>hs. h_purchase_price h * h_shares h))"
proof (induction hs arbitrary: i s pv pinv)
  case Nil
  then show ?case by simp
next
  case (Cons h hs)
  have upt: "[i..<i + length (h # hs)] = i # [Suc i..<Suc i + length hs]"
    by (simp add: upt_rec)
  show ?case
    by (simp only: upt) (simp add: get_current_price_Inr db_add_def Cons.IH add.assoc)
qed

lemma flush_snapshots:
  "\<exists>new. foldl flush db (map (\<lambda>(a, b, c). NewPriceSnapshot a b c) xs)
            = db\<lparr>price_snapshots := price_snapshots db @ new\<rparr>
        \<and> map (\<lambda>r. (ps_holding_id r, ps_price r, ps_date r)) new
            = map (\<lambda>(a, b, c). (Some a, b, c)) xs"
proof (induction xs arbitrary: db)
  case Nil
  show ?case by (rule exI [of _ "[]"]) simp
next
  case (Cons x xs)
  obtain a b c where x: "x = (a, b, c)" by (cases x)
  let ?r = "\<lparr>ps_id = next_id (map ps_id (price_snapshots db)), ps_holding_id = Some a,
             ps_price = b, ps_date = c\<rparr>"
  let ?db1 = "db\<lparr>price_snapshots := price_snapshots db @ [?r]\<rparr>"
  from Cons.IH [of ?db1] obtain new where
    n: "foldl flush ?db1 (map (\<lambda>(a, b, c). NewPriceSnapshot a b c) xs)
          = ?db1\<lparr>price_snapshots := price_snapshots ?db1 @ new\<rparr>"
       "map (\<lambda>r. (ps_holding_id r, ps_price r, ps_date r)) new
          = map (\<lambda>(a, b, c). (Some a, b, c)) xs"
    by blast
  show ?case
    by (rule exI [of _ "?r # new"]) (simp add: x n)
qed

lemma map_zip_snd: "length xs = length ys \<Longrightarrow> map (\<lambda>(k, h). g h) (zip xs ys) = map g ys"
  by (induction xs ys rule: list_induct2) simp_all

lemma job_try_ok:
  "\<exists>new. update_price_snapshots_try yf clk None db =
      (None, [],
       db\<lparr>price_snapshots := price_snapshots db @ new,
          portfolio_history := portfolio_history db @
            [\<lparr>ph_id = next_id (map ph_id (portfolio_history db)),
              ph_date = clk (length (holdings db)),
              ph_total_value = (\<Sum>h\<leftarrow>holdings db. current_price_of yf (h_ticker h) * h_shares h),
              ph_total_invested = (\<Sum>h\<leftarrow>holdings db. h_purchase_price h * h_shares h),
              ph_profit_loss = (\<Sum>h\<leftarrow>holdings db. current_price_of yf (h_ticker h) * h_shares h)
                               - (\<Sum>h\<leftarrow>holdings db. h_purchase_price h * h_shares h)\<rparr>]\<rparr>)
    \<and> map (\<lambda>r. (ps_holding_id r, ps_price r)) new
        = map (\<lambda>h. (Some (h_id h), current_price_of yf (h_ticker h))) (holdings db)"
proof -
  let ?hs = "holdings db"
  define xs where
    "xs = map (\<lambda>(k, h). (h_id h, current_price_of yf (h_ticker h), clk k)) (zip [0..<length ?hs] ?hs)"
  define S where "S = map (\<lambda>(a, b, c). NewPriceSnapshot a b c) xs"
  have loop: "snapshot_loop yf clk None 0 ?hs ([], 0, 0) =
      (None, S, (\<Sum>h\<leftarrow>?hs. current_price_of yf (h_ticker h) * h_shares h),
       (\<Sum>h\<leftarrow>?hs. h_purchase_price h * h_shares h))"
    by (simp add: snapshot_loop_ok S_def xs_def case_prod_unfold)
  obtain new where
    n: "foldl flush db S = db\<lparr>price_snapshots := price_snapshots db @ new\<rparr>"
       "map (\<lambda>r. (ps_holding_id r, ps_price r, ps_date r)) new = map (\<lambda>(a, b, c). (Some a, b, c)) xs"
    using flush_snapshots [of db xs] unfolding S_def by blast
  have "map (\<lambda>r. (ps_holding_id r, ps_price r)) new
          = map (\<lambda>t. (fst t, fst (snd t))) (map (\<lambda>r. (ps_holding_id r, ps_price r, ps_date r)) new)"
    by simp
  also have "\<dots> = map (\<lambda>(k, h). (Some (h_id h), current_price_of yf (h_ticker h)))
                      (zip [0..<length ?hs] ?hs)"
    by (simp only: n(2)) (simp add: xs_def case_prod_unfold)
  also have "\<dots> = map (\<lambda>h. (Some (h_id h), current_price_of yf (h_ticker h))) ?hs"
    by (rule map_zip_snd) simp
  finally have m: "map (\<lambda>r. (ps_holding_id r, ps_price r)) new
                     = map (\<lambda>h. (Some (h_id h), current_price_of yf (h_ticker h))) ?hs" .
  have c: "db_commit (S @ [H]) db = flush (db\<lparr>price_snapshots := price_snapshots db @ new\<rparr>) H" for H
    by (simp add: db_commit_def n(1))
  have "update_price_snapshots_try yf clk None db =
      (None, [],
       db\<lparr>price_snapshots := price_snapshots db @ new,
          portfolio_history := portfolio_history db @
            [\<lparr>ph_id = next_id (map ph_id (portfolio_history db)),
              ph_date = clk (length (holdings db)),
              ph_total_value = (\<Sum>h\<leftarrow>holdings db. current_price_of yf (h_ticker h) * h_shares h),
              ph_total_invested = (\<Sum>h\<leftarrow>holdings db. h_purchase_price h * h_shares h),
              ph_profit_loss = (\<Sum>h\<leftarrow>holdings db. current_price_of yf (h_ticker h) * h_shares h)
                               - (\<Sum>h\<leftarrow>holdings db. h_purchase_price h * h_shares h)\<rparr>]\<rparr>)"
    by (simp add: update_price_snapshots_try_def Let_def loop db_add_def c)
  with m show ?thesis by blast
qed

lemma job_ok:
  "\<exists>new. update_price_snapshots yf clk None db =
      ([],
       db\<lparr>price_snapshots := price_snapshots db @ new,
          portfolio_history := portfolio_history db @
            [\<lparr>ph_id = next_id (map ph_id (portfolio_history db)),
              ph_date = clk (length (holdings db)),
              ph_total_value = (\<Sum>h\<leftarrow>holdings db. current_price_of yf (h_ticker h) * h_shares h),
              ph_total_invested = (\<Sum>h\<leftarrow>holdings db. h_purchase_price h * h_shares h),
              ph_profit_loss = (\<Sum>h\<leftarrow>holdings db. current_price_of yf (h_ticker h) * h_shares h)
                               - (\<Sum>h\<leftarrow>holdings db. h_purchase_price h * h_shares h)\<rparr>]\<rparr>)
    \<and> map (\<lambda>r. (ps_holding_id r, ps_price r)) new
        = map (\<lambda>h. (Some (h_id h), current_price_of yf (h_ticker h))) (holdings db)"
proof -
  from job_try_ok [of yf clk db] obtain new where
    t: "update_price_snapshots_try yf clk None db =
      (None, [],
       db\<lparr>price_snapshots := price_snapshots db @ new,
          portfolio_history := portfolio_history db @
            [\<lparr>ph_id = next_id (map ph_id (portfolio_history db)),
              ph_date = clk (length (holdings db)),
              ph_total_value = (\<Sum>h\<leftarrow>holdings db. current_price_of yf (h_ticker h) * h_shares h),
              ph_total_invested = (\<Sum>h\<leftarrow>holdings db. h_purchase_price h * h_shares h),
              ph_profit_loss = (\<Sum>h\<leftarrow>holdings db. current_price_of yf (h_ticker h) * h_shares h)
                               - (\<Sum>h\<leftarrow>holdings db. h_purchase_price h * h_shares h)\<rparr>]\<rparr>)"
    and m: "map (\<lambda>r. (ps_holding_id r, ps_price r)) new
        = map (\<lambda>h. (Some (h_id h), current_price_of yf (h_ticker h))) (holdings db)"
    by blast
  show ?thesis
    by (rule exI [of _ new]) (simp add: update_price_snapshots_def t m)
qed

lemma pair_map_split:
  "map (\<lambda>r. (f r, g r)) xs = map (\<lambda>h. (f' h, g' h)) ys
     \<Longrightarrow> map f xs = map f' ys \<and> map g xs = map g' ys \<and> length xs = length ys"
proof -
  assume a: "map (\<lambda>r. (f r, g r)) xs = map (\<lambda>h. (f' h, g' h)) ys"
  have "map f xs = map fst (map (\<lambda>r. (f r, g r)) xs)" by simp
  also have "\<dots> = map f' ys" by (simp only: a) simp
  finally have 1: "map f xs = map f' ys" .
  have "map g xs = map snd (map (\<lambda>r. (f r, g r)) xs)" by simp
  also have "\<dots> = map g' ys" by (simp only: a) simp
  finally have 2: "map g xs = map g' ys" .
  from 1 have "length xs = length ys" by (metis length_map)
  with 1 2 show ?thesis by simp
qed

text \<open>
  Claim C1. For every list of stored holdings, a run of the snapshot job in which no
  exception is raised logs nothing, appends exactly one \<open>PriceSnapshot\<close> row per holding,
  in order, each referring to its holding and carrying the price fetched for that
  holding's ticker, and appends exactly one \<open>PortfolioHistory\<close> row whose \<open>total_value\<close>
  is the sum of \<open>price * shares\<close>, whose \<open>total_invested\<close> is the sum of
  \<open>purchase_price * shares\<close> and whose \<open>profit_loss\<close> is their difference. With no
  holdings it appends one history row of three zeros and no snapshot row.
\<close>

theorem snapshot_job_persists:
  "(\<exists>new hist. update_price_snapshots yf utcnow None db =
        ([], db\<lparr>price_snapshots := price_snapshots db @ new,
                portfolio_history := portfolio_history db @ [hist]\<rparr>)
      \<and> length new = length (holdings db)
      \<and> map ps_holding_id new = map (\<lambda>h. Some (h_id h)) (holdings db)
      \<and> map ps_price new = map (\<lambda>h. current_price_of yf (h_ticker h)) (holdings db)
      \<and> ph_total_value hist = (\<Sum>h\<leftarrow>holdings db. current_price_of yf (h_ticker h) * h_shares h)
      \<and> ph_total_invested hist = (\<Sum>h\<leftarrow>holdings db. h_purchase_price h * h_shares h)
      \<and> ph_profit_loss hist = ph_total_value hist - ph_total_invested hist)
   \<and> (\<exists>hist. update_price_snapshots yf utcnow None
                 \<lparr>holdings = [], price_snapshots = snaps, portfolio_history = hists\<rparr> =
        ([], \<lparr>holdings = [], price_snapshots = snaps, portfolio_history = hists @ [hist]\<rparr>)
      \<and> ph_total_value hist = 0 \<and> ph_total_invested hist = 0 \<and> ph_profit_loss hist = 0)"
proof
  from job_ok [of yf utcnow db] obtain new where
    r: "update_price_snapshots yf utcnow None db =
      ([],
       db\<lparr>price_snapshots := price_snapshots db @ new,
          portfolio_history := portfolio_history db @
            [\<lparr>ph_id = next_id (map ph_id (portfolio_history db)),
              ph_date = utcnow (length (holdings db)),
              ph_total_value = (\<Sum>h\<leftarrow>holdings db. current_price_of yf (h_ticker h) * h_shares h),
              ph_total_invested = (\<Sum>h\<leftarrow>holdings db. h_purchase_price h * h_shares h),
              ph_profit_loss = (\<Sum>h\<leftarrow>holdings db. current_price_of yf (h_ticker h) * h_shares h)
                               - (\<Sum>h\<leftarrow>holdings db. h_purchase_price h * h_shares h)\<rparr>]\<rparr>)"
    and m: "map (\<lambda>r. (ps_holding_id r, ps_price r)) new
        = map (\<lambda>h. (Some (h_id h), current_price_of yf (h_ticker h))) (holdings db)"
    by blast
  note s = pair_map_split [OF m]
  show "\<exists>new hist. update_price_snapshots yf utcnow None db =
        ([], db\<lparr>price_snapshots := price_snapshots db @ new,
                portfolio_history := portfolio_history db @ [hist]\<rparr>)
      \<and> length new = length (holdings db)
      \<and> map ps_holding_id new = map (\<lambda>h. Some (h_id h)) (holdings db)
      \<and> map ps_price new = map (\<lambda>h. current_price_of yf (h_ticker h)) (holdings db)
      \<and> ph_total_value hist = (\<Sum>h\<leftarrow>holdings db. current_price_of yf (h_ticker h) * h_shares h)
      \<and> ph_total_invested hist = (\<Sum>h\<leftarrow>holdings db. h_purchase_price h * h_shares h)
      \<and> ph_profit_loss hist = ph_total_value hist - ph_total_invested hist"
    apply (rule exI [of _ new])
    apply (rule exI [of _ "\<lparr>ph_id = next_id (map ph_id (portfolio_history db)),
              ph_date = utcnow (length (holdings db)),
              ph_total_value = (\<Sum>h\<leftarrow>holdings db. current_price_of yf (h_ticker h) * h_shares h),
              ph_total_invested = (\<Sum>h\<leftarrow>holdings db. h_purchase_price h * h_shares h),
              ph_profit_loss = (\<Sum>h\<leftarrow>holdings db. current_price_of yf (h_ticker h) * h_shares h)
                               - (\<Sum>h\<leftarrow>holdings db. h_purchase_price h * h_shares h)\<rparr>"])
    using r s by simp
next
  show "\<exists>hist. update_price_snapshots yf utcnow None
                 \<lparr>holdings = [], price_snapshots = snaps, portfolio_history = hists\<rparr> =
        ([], \<lparr>holdings = [], price_snapshots = snaps, portfolio_history = hists @ [hist]\<rparr>)
      \<and> ph_total_value hist = 0 \<and> ph_total_invested hist = 0 \<and> ph_profit_loss hist = 0"
    by (simp add: update_price_snapshots_def update_price_snapshots_try_def db_add_def db_commit_def)
qed

section \<open>A failed lookup inside the snapshot job\<close>

lemma nth_of_map_eq: "map f xs = map g ys \<Longrightarrow> k < length ys \<Longrightarrow> f (xs ! k) = g (ys ! k)"
  by (metis length_map nth_map)

text \<open>
  Claim C10. When the price lookup of a stored holding returns the failure value \<open>0\<close>, a
  run of the snapshot job (in which no exception is raised) logs nothing and skips
  nothing: it appends a snapshot row for that holding with price \<open>0\<close>; the holding adds
  nothing to the run's \<open>total_value\<close>, which is the sum over the other holdings, and its
  full \<open>purchase_price * shares\<close> to \<open>total_invested\<close>, so the recorded \<open>profit_loss\<close> is
  that of the other holdings minus this holding's cost.
\<close>

theorem failed_lookup_is_recorded_as_zero:
  assumes "holdings db = pre @ h # post"
    and "get_current_price yf (h_ticker h) = Inr 0"
  shows "\<exists>new hist. update_price_snapshots yf utcnow None db =
        ([], db\<lparr>price_snapshots := price_snapshots db @ new,
                portfolio_history := portfolio_history db @ [hist]\<rparr>)
      \<and> length new = length (holdings db)
      \<and> ps_holding_id (new ! length pre) = Some (h_id h)
      \<and> ps_price (new ! length pre) = 0
      \<and> ph_total_value hist =
          (\<Sum>x\<leftarrow>pre. current_price_of yf (h_ticker x) * h_shares x)
          + (\<Sum>x\<leftarrow>post. current_price_of yf (h_ticker x) * h_shares x)
      \<and> ph_total_invested hist =
          (\<Sum>x\<leftarrow>pre. h_purchase_price x * h_shares x) + h_purchase_price h * h_shares h
          + (\<Sum>x\<leftarrow>post. h_purchase_price x * h_shares x)
      \<and> ph_profit_loss hist =
          ((\<Sum>x\<leftarrow>pre @ post. current_price_of yf (h_ticker x) * h_shares x)
           - (\<Sum>x\<leftarrow>pre @ post. h_purchase_price x * h_shares x))
          - h_purchase_price h * h_shares h"
proof -
  have z: "current_price_of yf (h_ticker h) = 0"
    using assms(2) by (simp add: current_price_of_def)
  from job_ok [of yf utcnow db] obtain new where
    r: "update_price_snapshots yf utcnow None db =
      ([],
       db\<lparr>price_snapshots := price_snapshots db @ new,
          portfolio_history := portfolio_history db @
            [\<lparr>ph_id = next_id (map ph_id (portfolio_history db)),
              ph_date = utcnow (length (holdings db)),
              ph_total_value = (\<Sum>h\<leftarrow>holdings db. current_price_of yf (h_ticker h) * h_shares h),
              ph_total_invested = (\<Sum>h\<leftarrow>holdings db. h_purchase_price h * h_shares h),
              ph_profit_loss = (\<Sum>h\<leftarrow>holdings db. current_price_of yf (h_ticker h) * h_shares h)
                               - (\<Sum>h\<leftarrow>holdings db. h_purchase_price h * h_shares h)\<rparr>]\<rparr>)"
    and m: "map (\<lambda>r. (ps_holding_id r, ps_price r)) new
        = map (\<lambda>h. (Some (h_id h), current_price_of yf (h_ticker h))) (holdings db)"
    by blast
  note s = pair_map_split [OF m]
  have k: "length pre < length (holdings db)" "holdings db ! length pre = h"
    using assms(1) by simp_all
  have a: "ps_holding_id (new ! length pre) = Some (h_id h)"
    using nth_of_map_eq [of ps_holding_id new "\<lambda>h. Some (h_id h)" "holdings db" "length pre"] s k
    by simp
  have b: "ps_price (new ! length pre) = 0"
    using nth_of_map_eq [of ps_price new "\<lambda>h. current_price_of yf (h_ticker h)" "holdings db" "length pre"] s k z
    by simp
  show ?thesis
    apply (rule exI [of _ new])
    apply (rule exI [of _ "\<lparr>ph_id = next_id (map ph_id (portfolio_history db)),
              ph_date = utcnow (length (holdings db)),
              ph_total_value = (\<Sum>h\<leftarrow>holdings db. current_price_of yf (h_ticker h) * h_shares h),
              ph_total_invested = (\<Sum>h\<leftarrow>holdings db. h_purchase_price h * h_shares h),
              ph_profit_loss = (\<Sum>h\<leftarrow>holdings db. current_price_of yf (h_ticker h) * h_shares h)
                               - (\<Sum>h\<leftarrow>holdings db. h_purchase_price h * h_shares h)\<rparr>"])
    using r s a b by (simp add: assms(1) z)
qed

theorem failed_lookup_is_recorded_as_zero_witness:
  "update_price_snapshots
      (\<lambda>t. if t = ''AAA'' then YfFrame [8] else YfRaises) (\<lambda>k. 100 + int k) None
      \<lparr>holdings = [\<lparr>h_id = 1, h_ticker = ''AAA'', h_shares = 10, h_purchase_price = 5, h_created_at = 0\<rparr>,
                   \<lparr>h_id = 2, h_ticker = ''BAD'', h_shares = 3, h_purchase_price = 7, h_created_at = 0\<rparr>],
       price_snapshots = [], portfolio_history = []\<rparr>
    = ([], \<lparr>holdings = [\<lparr>h_id = 1, h_ticker = ''AAA'', h_shares = 10, h_purchase_price = 5, h_created_at = 0\<rparr>,
                   \<lparr>h_id = 2, h_ticker = ''BAD'', h_shares = 3, h_purchase_price = 7, h_created_at = 0\<rparr>],
            price_snapshots = [\<lparr>ps_id = 1, ps_holding_id = Some 1, ps_price = 8, ps_date = 100\<rparr>,
                               \<lparr>ps_id = 2, ps_holding_id = Some 2, ps_price = 0, ps_date = 101\<rparr>],
            portfolio_history = [\<lparr>ph_id = 1, ph_date = 102, ph_total_value = 80,
                                  ph_total_invested = 71, ph_profit_loss = 9\<rparr>]\<rparr>)"
proof -
  let ?yf = "\<lambda>t. if t = ''AAA'' then YfFrame [8] else YfRaises"
  let ?h1 = "\<lparr>h_id = 1, h_ticker = ''AAA'', h_shares = 10, h_purchase_price = 5, h_created_at = 0\<rparr>"
  let ?h2 = "\<lparr>h_id = 2, h_ticker = ''BAD'', h_shares = 3, h_purchase_price = 7, h_created_at = 0\<rparr>"
  let ?db = "\<lparr>holdings = [?h1, ?h2], price_snapshots = [], portfolio_history = []\<rparr>"
  have g: "get_current_price ?yf (h_ticker ?h2) = Inr 0"
    by (simp add: get_current_price_def get_current_price_try_def)
  have hs: "holdings ?db = [?h1] @ ?h2 # []" by simp
  note t = failed_lookup_is_recorded_as_zero [OF hs g, of "\<lambda>k. 100 + int k"]
  have e: "update_price_snapshots ?yf (\<lambda>k. 100 + int k) None ?db
    = ([], \<lparr>holdings = [?h1, ?h2],
            price_snapshots = [\<lparr>ps_id = 1, ps_holding_id = Some 1, ps_price = 8, ps_date = 100\<rparr>,
                               \<lparr>ps_id = 2, ps_holding_id = Some 2, ps_price = 0, ps_date = 101\<rparr>],
            portfolio_history = [\<lparr>ph_id = 1, ph_date = 102, ph_total_value = 80,
                                  ph_total_invested = 71, ph_profit_loss = 9\<rparr>]\<rparr>)"
    by (simp add: update_price_snapshots_def update_price_snapshots_try_def db_add_def
        db_commit_def next_id_def get_current_price_def get_current_price_try_def)
  from t e show ?thesis by simp
qed

section \<open>The snapshot job when an exception is raised\<close>

lemma try_exception_keeps_tables:
  "update_price_snapshots_try yf clk fault db = (Some e, s, db') \<Longrightarrow> db' = db"
  by (auto simp: update_price_snapshots_try_def Let_def split: if_splits prod.splits option.splits)

lemma job_logged_keeps_tables:
  "fst (update_price_snapshots yf clk fault db) \<noteq> [] \<Longrightarrow> snd (update_price_snapshots yf clk fault db) = db"
  by (auto simp: update_price_snapshots_def split: prod.splits option.splits
      dest: try_exception_keeps_tables)

lemma loop_raises_at_fetch:
  "i \<le> j \<Longrightarrow> j < i + length hs
     \<Longrightarrow> fst (snapshot_loop yf clk (Some (AtFetch j)) i hs (s, pv, pinv)) = Some RuntimeFault"
proof (induction hs arbitrary: i s pv pinv)
  case Nil
  then show ?case by simp
next
  case (Cons h hs)
  show ?case
  proof (cases "j = i")
    case True
    then show ?thesis by simp
  next
    case False
    with Cons.prems have "Suc i \<le> j" "j < Suc i + length hs" by simp_all
    from Cons.IH [OF this] False show ?thesis
      by (simp add: get_current_price_Inr)
  qed
qed

lemma loop_raises_at_accumulate:
  "i \<le> j \<Longrightarrow> j < i + length hs
     \<Longrightarrow> fst (snapshot_loop yf clk (Some (AtAccumulate j)) i hs (s, pv, pinv)) = Some RuntimeFault"
proof (induction hs arbitrary: i s pv pinv)
  case Nil
  then show ?case by simp
next
  case (Cons h hs)
  show ?case
  proof (cases "j = i")
    case True
    then show ?thesis by (simp add: get_current_price_Inr)
  next
    case False
    with Cons.prems have "Suc i \<le> j" "j < Suc i + length hs" by simp_all
    from Cons.IH [OF this] False show ?thesis
      by (simp add: get_current_price_Inr)
  qed
qed

lemma loop_completes:
  "(\<forall>j. fault \<noteq> Some (AtFetch j)) \<Longrightarrow> (\<forall>j. fault \<noteq> Some (AtAccumulate j))
     \<Longrightarrow> fst (snapshot_loop yf clk fault i hs (s, pv, pinv)) = None"
  by (induction hs arbitrary: i s pv pinv) (simp_all add: get_current_price_Inr)

lemma job_raises_in_loop:
  assumes "fst (snapshot_loop yf clk fault 0 (holdings db) ([], 0, 0)) = Some RuntimeFault"
    and "fault \<noteq> Some AtLoad"
  shows "update_price_snapshots yf clk fault db = ([RuntimeFault], db)"
  using assms
  by (auto simp: update_price_snapshots_def update_price_snapshots_try_def Let_def
      split: prod.splits option.splits)

lemma job_raises_after_loop:
  assumes "fst (snapshot_loop yf clk fault 0 (holdings db) ([], 0, 0)) = None"
    and "fault = Some AtHistory \<or> fault = Some AtCommit"
  shows "update_price_snapshots yf clk fault db = ([RuntimeFault], db)"
  using assms
  by (auto simp: update_price_snapshots_def update_price_snapshots_try_def Let_def
      split: prod.splits option.splits)

text \<open>
  Claim C2, as the code has it. An exception raised inside the \<^verbatim>\<open>try\<close> block (while
  loading, in an iteration of the loop before or after \<^verbatim>\<open>db.add\<close>, while building the
  history row or inside the commit) ends the run with the exception only logged, and
  the run persists nothing: whenever a run logs an exception, the three tables are
  exactly what they were before the run. No snapshot row of that run is stored.
\<close>

theorem snapshot_job_exception_persists_nothing:
  "(fst (update_price_snapshots yf utcnow fault db) \<noteq> []
      \<longrightarrow> snd (update_price_snapshots yf utcnow fault db) = db)
   \<and> (fault = Some AtLoad \<or> fault = Some AtHistory \<or> fault = Some AtCommit
        \<or> (\<exists>i<length (holdings db). fault = Some (AtFetch i) \<or> fault = Some (AtAccumulate i))
      \<longrightarrow> update_price_snapshots yf utcnow fault db = ([RuntimeFault], db))"
proof (intro conjI impI)
  assume "fst (update_price_snapshots yf utcnow fault db) \<noteq> []"
  then show "snd (update_price_snapshots yf utcnow fault db) = db"
    by (rule job_logged_keeps_tables)
next
  assume "fault = Some AtLoad \<or> fault = Some AtHistory \<or> fault = Some AtCommit
        \<or> (\<exists>i<length (holdings db). fault = Some (AtFetch i) \<or> fault = Some (AtAccumulate i))"
  then consider (load) "fault = Some AtLoad"
    | (after) "fault = Some AtHistory \<or> fault = Some AtCommit"
    | (fetch) i where "i < length (holdings db)" "fault = Some (AtFetch i)"
    | (acc) i where "i < length (holdings db)" "fault = Some (AtAccumulate i)"
    by blast
  then show "update_price_snapshots yf utcnow fault db = ([RuntimeFault], db)"
  proof cases
    case load
    then show ?thesis
      by (simp add: update_price_snapshots_def update_price_snapshots_try_def)
  next
    case after
    then have "fst (snapshot_loop yf utcnow fault 0 (holdings db) ([], 0, 0)) = None"
      by (intro loop_completes) auto
    then show ?thesis using after by (rule job_raises_after_loop)
  next
    case fetch
    then have "fst (snapshot_loop yf utcnow fault 0 (holdings db) ([], 0, 0)) = Some RuntimeFault"
      using loop_raises_at_fetch [of 0 i "holdings db" yf utcnow "[]" 0 0] by simp
    then show ?thesis using fetch by (intro job_raises_in_loop) simp_all
  next
    case acc
    then have "fst (snapshot_loop yf utcnow fault 0 (holdings db) ([], 0, 0)) = Some RuntimeFault"
      using loop_raises_at_accumulate [of 0 i "holdings db" yf utcnow "[]" 0 0] by simp
    then show ?thesis using acc by (intro job_raises_in_loop) simp_all
  qed
qed

theorem snapshot_job_exception_persists_nothing_witness:
  "update_price_snapshots (\<lambda>t. YfFrame [8]) (\<lambda>k. 100 + int k) (Some (AtFetch 1))
      \<lparr>holdings = [\<lparr>h_id = 1, h_ticker = ''AAA'', h_shares = 10, h_purchase_price = 5, h_created_at = 0\<rparr>,
                   \<lparr>h_id = 2, h_ticker = ''BBB'', h_shares = 3, h_purchase_price = 7, h_created_at = 0\<rparr>],
       price_snapshots = [], portfolio_history = []\<rparr>
    = ([RuntimeFault],
       \<lparr>holdings = [\<lparr>h_id = 1, h_ticker = ''AAA'', h_shares = 10, h_purchase_price = 5, h_created_at = 0\<rparr>,
                   \<lparr>h_id = 2, h_ticker = ''BBB'', h_shares = 3, h_purchase_price = 7, h_created_at = 0\<rparr>],
        price_snapshots = [], portfolio_history = []\<rparr>)"
  using snapshot_job_exception_persists_nothing [of "\<lambda>t. YfFrame [8]" "\<lambda>k. 100 + int k" "Some (AtFetch 1)"
      "\<lparr>holdings = [\<lparr>h_id = 1, h_ticker = ''AAA'', h_shares = 10, h_purchase_price = 5, h_created_at = 0\<rparr>,
                   \<lparr>h_id = 2, h_ticker = ''BBB'', h_shares = 3, h_purchase_price = 7, h_created_at = 0\<rparr>],
       price_snapshots = [], portfolio_history = []\<rparr>"]
  by simp

text \<open>
  The claim as the specification words it fails: in the run below the first holding's
  snapshot has been registered with the session when the exception is raised in the
  second iteration, and no snapshot row is stored afterwards.
\<close>

theorem snapshot_job_partial_writes_counterexample:
  "update_price_snapshots_try (\<lambda>t. YfFrame [8]) (\<lambda>k. 100 + int k) (Some (AtFetch 1))
      \<lparr>holdings = [\<lparr>h_id = 1, h_ticker = ''AAA'', h_shares = 10, h_purchase_price = 5, h_created_at = 0\<rparr>,
                   \<lparr>h_id = 2, h_ticker = ''BBB'', h_shares = 3, h_purchase_price = 7, h_created_at = 0\<rparr>],
       price_snapshots = [], portfolio_history = []\<rparr>
    = (Some RuntimeFault, [NewPriceSnapshot 1 8 100],
       \<lparr>holdings = [\<lparr>h_id = 1, h_ticker = ''AAA'', h_shares = 10, h_purchase_price = 5, h_created_at = 0\<rparr>,
                   \<lparr>h_id = 2, h_ticker = ''BBB'', h_shares = 3, h_purchase_price = 7, h_created_at = 0\<rparr>],
        price_snapshots = [], portfolio_history = []\<rparr>)
   \<and> price_snapshots (snd (update_price_snapshots (\<lambda>t. YfFrame [8]) (\<lambda>k. 100 + int k) (Some (AtFetch 1))
      \<lparr>holdings = [\<lparr>h_id = 1, h_ticker = ''AAA'', h_shares = 10, h_purchase_price = 5, h_created_at = 0\<rparr>,
                   \<lparr>h_id = 2, h_ticker = ''BBB'', h_shares = 3, h_purchase_price = 7, h_created_at = 0\<rparr>],
       price_snapshots = [], portfolio_history = []\<rparr>)) = []"
  by (simp add: update_price_snapshots_def update_price_snapshots_try_def db_add_def
      get_current_price_def get_current_price_try_def)

section \<open>The portfolio history query\<close>

lemma history_query_mset:
  "mset (history_query now db) = mset (filter (\<lambda>e. now - thirty_days \<le> ph_date e) (portfolio_history db))"
  by (simp add: history_query_def)

lemma history_query_sorted: "sorted (map ph_date (history_query now db))"
  by (simp add: history_query_def sorted_sort_key)

lemma history_query_set:
  "set (history_query now db) = {e \<in> set (portfolio_history db). now - thirty_days \<le> ph_date e}"
  by (simp add: history_query_def)

text \<open>
  Claim C8. With \<open>now\<close> the time of the request, the portfolio history operation answers
  with (the date and profit/loss of) exactly the stored \<open>PortfolioHistory\<close> rows dated
  no earlier than 30 days before \<open>now\<close>, each as often as it is stored, in ascending
  order of date; no returned row is older than 30 days. Rows are stamped with the clock
  when they are written, so none is dated after \<open>now\<close>, and the returned rows are then
  exactly those dated within the last 30 days.
\<close>

theorem portfolio_history_last_30_days:
  "get_portfolio_history strftime now db =
      map (\<lambda>entry. \<lparr>hr_date = strftime (ph_date entry), hr_profit_loss = ph_profit_loss entry\<rparr>)
        (history_query now db)
   \<and> mset (history_query now db) =
       mset (filter (\<lambda>e. now - thirty_days \<le> ph_date e) (portfolio_history db))
   \<and> sorted (map ph_date (history_query now db))
   \<and> (\<forall>e \<in> set (history_query now db). now - thirty_days \<le> ph_date e)
   \<and> ((\<forall>e \<in> set (portfolio_history db). ph_date e \<le> now) \<longrightarrow>
        mset (history_query now db) =
          mset (filter (\<lambda>e. now - thirty_days \<le> ph_date e \<and> ph_date e \<le> now) (portfolio_history db)))"
proof (intro conjI impI)
  show "get_portfolio_history strftime now db =
      map (\<lambda>entry. \<lparr>hr_date = strftime (ph_date entry), hr_profit_loss = ph_profit_loss entry\<rparr>)
        (history_query now db)"
    by (simp add: get_portfolio_history_def)
  show "mset (history_query now db) =
       mset (filter (\<lambda>e. now - thirty_days \<le> ph_date e) (portfolio_history db))"
    by (rule history_query_mset)
  show "sorted (map ph_date (history_query now db))"
    by (rule history_query_sorted)
  show "\<forall>e \<in> set (history_query now db). now - thirty_days \<le> ph_date e"
    by (simp add: history_query_set)
next
  assume a: "\<forall>e \<in> set (portfolio_history db). ph_date e \<le> now"
  have "filter (\<lambda>e. now - thirty_days \<le> ph_date e) (portfolio_history db)
          = filter (\<lambda>e. now - thirty_days \<le> ph_date e \<and> ph_date e \<le> now) (portfolio_history db)"
    using a by (intro filter_cong) auto
  then show "mset (history_query now db) =
          mset (filter (\<lambda>e. now - thirty_days \<le> ph_date e \<and> ph_date e \<le> now) (portfolio_history db))"
    by (simp only: history_query_mset)
qed

theorem portfolio_history_last_30_days_witness:
  "get_portfolio_history (\<lambda>d. if d = 2592000000150 then ''2024-01-02'' else ''2024-01-03'') 2592000000300
      \<lparr>holdings = [], price_snapshots = [],
       portfolio_history =
         [\<lparr>ph_id = 1, ph_date = 50, ph_total_value = 10, ph_total_invested = 9, ph_profit_loss = 1\<rparr>,
          \<lparr>ph_id = 2, ph_date = 2592000000200, ph_total_value = 12, ph_total_invested = 9, ph_profit_loss = 3\<rparr>,
          \<lparr>ph_id = 3, ph_date = 2592000000150, ph_total_value = 11, ph_total_invested = 9, ph_profit_loss = 2\<rparr>]\<rparr>
    = [\<lparr>hr_date = ''2024-01-02'', hr_profit_loss = 2\<rparr>, \<lparr>hr_date = ''2024-01-03'', hr_profit_loss = 3\<rparr>]"
  using portfolio_history_last_30_days
    [of "\<lambda>d. if d = 2592000000150 then ''2024-01-02'' else ''2024-01-03''" 2592000000300
      "\<lparr>holdings = [], price_snapshots = [],
       portfolio_history =
         [\<lparr>ph_id = 1, ph_date = 50, ph_total_value = 10, ph_total_invested = 9, ph_profit_loss = 1\<rparr>,
          \<lparr>ph_id = 2, ph_date = 2592000000200, ph_total_value = 12, ph_total_invested = 9, ph_profit_loss = 3\<rparr>,
          \<lparr>ph_id = 3, ph_date = 2592000000150, ph_total_value = 11, ph_total_invested = 9, ph_profit_loss = 2\<rparr>]\<rparr>"]
  by (simp add: history_query_def thirty_days_def)

section \<open>Creating, deleting and listing holdings\<close>

lemma get_holdings_loop_map:
  "get_holdings_loop yf hs response =
     Inr (response @
       map (\<lambda>h. \<lparr>r_id = h_id h, r_ticker = h_ticker h, r_shares = h_shares h,
                  r_purchase_price = h_purchase_price h,
                  r_current_price = current_price_of yf (h_ticker h),
                  r_current_value = current_price_of yf (h_ticker h) * h_shares h,
                  r_total_cost = h_purchase_price h * h_shares h,
                  r_created_at = h_created_at h\<rparr>) hs)"
  by (induction hs arbitrary: response) (simp_all add: get_current_price_Inr)

lemma get_holdings_ids:
  "\<exists>rs. get_holdings yf db = Inr rs \<and> map r_id rs = map h_id (holdings db)"
  by (simp add: get_holdings_def get_holdings_loop_map comp_def)

lemma delete_missing:
  "holding_id \<notin> h_id ` set (holdings db)
     \<Longrightarrow> delete_holding holding_id db = (Inl (HTTPException 404 ''Holding not found''), db)"
proof -
  assume "holding_id \<notin> h_id ` set (holdings db)"
  then have "find (\<lambda>h. h_id h = holding_id) (holdings db) = None"
    by (auto simp: find_None_iff)
  then show ?thesis by (simp add: delete_holding_def)
qed

lemma delete_present:
  "holding_id \<in> h_id ` set (holdings db)
     \<Longrightarrow> delete_holding holding_id db =
         (Inr ''Holding deleted'',
          db\<lparr>holdings := filter (\<lambda>h. h_id h \<noteq> holding_id) (holdings db),
             price_snapshots :=
               map (\<lambda>s. if ps_holding_id s = Some holding_id then s\<lparr>ps_holding_id := None\<rparr> else s)
                 (price_snapshots db)\<rparr>)"
proof -
  assume "holding_id \<in> h_id ` set (holdings db)"
  then have "find (\<lambda>h. h_id h = holding_id) (holdings db) \<noteq> None"
    by (auto simp: find_None_iff)
  then obtain holding where f: "find (\<lambda>h. h_id h = holding_id) (holdings db) = Some holding"
    by blast
  then have "h_id holding = holding_id"
    by (auto simp: find_Some_iff)
  with f show ?thesis
    by (simp add: delete_holding_def db_add_def db_commit_def)
qed

lemma create_rejected:
  "get_current_price yf (c_ticker holding) = Inr 0
     \<Longrightarrow> create_holding yf now holding db = (Inl (HTTPException 400 ''Invalid ticker symbol''), db)"
  by (simp add: create_holding_def)

lemma create_accepted:
  "get_current_price yf (c_ticker holding) \<noteq> Inr 0
     \<Longrightarrow> create_holding yf now holding db =
         (Inr \<lparr>r_id = next_id (map h_id (holdings db)), r_ticker = c_ticker holding,
               r_shares = c_shares holding, r_purchase_price = c_purchase_price holding,
               r_current_price = current_price_of yf (c_ticker holding),
               r_current_value = current_price_of yf (c_ticker holding) * c_shares holding,
               r_total_cost = c_purchase_price holding * c_shares holding,
               r_created_at = now\<rparr>,
          db\<lparr>holdings := holdings db @
              [\<lparr>h_id = next_id (map h_id (holdings db)), h_ticker = c_ticker holding,
                h_shares = c_shares holding, h_purchase_price = c_purchase_price holding,
                h_created_at = now\<rparr>]\<rparr>)"
  by (simp add: create_holding_def get_current_price_Inr db_add_def db_commit_def Let_def)

text \<open>
  Claim C6. Creating a holding fails with the 400 error \<open>Invalid ticker symbol\<close> exactly
  when the price lookup for its ticker returns \<open>0\<close>, and then the tables are unchanged;
  otherwise one holding row with the request's ticker, shares and purchase price is
  appended, and the response reports that row's id, the looked-up price,
  \<open>current_value = current_price * shares\<close> and \<open>total_cost = purchase_price * shares\<close>.
\<close>

theorem create_holding_validates_ticker:
  "(fst (create_holding yf now holding db) = Inl (HTTPException 400 ''Invalid ticker symbol'')
      \<longleftrightarrow> get_current_price yf (c_ticker holding) = Inr 0)
   \<and> (get_current_price yf (c_ticker holding) = Inr 0
        \<longrightarrow> create_holding yf now holding db
              = (Inl (HTTPException 400 ''Invalid ticker symbol''), db))
   \<and> (get_current_price yf (c_ticker holding) \<noteq> Inr 0
        \<longrightarrow> (\<exists>row resp. create_holding yf now holding db
                  = (Inr resp, db\<lparr>holdings := holdings db @ [row]\<rparr>)
              \<and> h_ticker row = c_ticker holding \<and> h_shares row = c_shares holding
              \<and> h_purchase_price row = c_purchase_price holding
              \<and> r_id resp = h_id row
              \<and> r_current_price resp = current_price_of yf (c_ticker holding)
              \<and> r_current_value resp = current_price_of yf (c_ticker holding) * c_shares holding
              \<and> r_total_cost resp = c_purchase_price holding * c_shares holding))"
proof (cases "get_current_price yf (c_ticker holding) = Inr 0")
  case True
  then show ?thesis by (simp add: create_rejected)
next
  case False
  note c = create_accepted [OF False, of now db]
  have "\<exists>row resp. create_holding yf now holding db
                  = (Inr resp, db\<lparr>holdings := holdings db @ [row]\<rparr>)
              \<and> h_ticker row = c_ticker holding \<and> h_shares row = c_shares holding
              \<and> h_purchase_price row = c_purchase_price holding
              \<and> r_id resp = h_id row
              \<and> r_current_price resp = current_price_of yf (c_ticker holding)
              \<and> r_current_value resp = current_price_of yf (c_ticker holding) * c_shares holding
              \<and> r_total_cost resp = c_purchase_price holding * c_shares holding"
    apply (rule exI [of _ "\<lparr>h_id = next_id (map h_id (holdings db)), h_ticker = c_ticker holding,
                h_shares = c_shares holding, h_purchase_price = c_purchase_price holding,
                h_created_at = now\<rparr>"])
    apply (rule exI [of _ "\<lparr>r_id = next_id (map h_id (holdings db)), r_ticker = c_ticker holding,
               r_shares = c_shares holding, r_purchase_price = c_purchase_price holding,
               r_current_price = current_price_of yf (c_ticker holding),
               r_current_value = current_price_of yf (c_ticker holding) * c_shares holding,
               r_total_cost = c_purchase_price holding * c_shares holding,
               r_created_at = now\<rparr>"])
    using c by simp
  moreover have "fst (create_holding yf now holding db) \<noteq> Inl (HTTPException 400 ''Invalid ticker symbol'')"
    using c by simp
  ultimately show ?thesis using False by blast
qed

theorem create_holding_validates_ticker_witness:
  "create_holding (\<lambda>t. if t = ''AAA'' then YfFrame [8] else YfFrame []) 500
      \<lparr>c_ticker = ''AAA'', c_shares = 10, c_purchase_price = 5\<rparr>
      \<lparr>holdings = [], price_snapshots = [], portfolio_history = []\<rparr>
    = (Inr \<lparr>r_id = 1, r_ticker = ''AAA'', r_shares = 10, r_purchase_price = 5, r_current_price = 8,
            r_current_value = 80, r_total_cost = 50, r_created_at = 500\<rparr>,
       \<lparr>holdings = [\<lparr>h_id = 1, h_ticker = ''AAA'', h_shares = 10, h_purchase_price = 5,
                      h_created_at = 500\<rparr>],
        price_snapshots = [], portfolio_history = []\<rparr>)
   \<and> create_holding (\<lambda>t. if t = ''AAA'' then YfFrame [8] else YfFrame []) 500
      \<lparr>c_ticker = ''NOPE'', c_shares = 10, c_purchase_price = 5\<rparr>
      \<lparr>holdings = [], price_snapshots = [], portfolio_history = []\<rparr>
    = (Inl (HTTPException 400 ''Invalid ticker symbol''),
       \<lparr>holdings = [], price_snapshots = [], portfolio_history = []\<rparr>)"
proof -
  let ?yf = "\<lambda>t. if t = ''AAA'' then YfFrame [8] else YfFrame []"
  let ?db = "\<lparr>holdings = [], price_snapshots = [], portfolio_history = []\<rparr>"
  have a: "get_current_price ?yf ''AAA'' = Inr 8" "get_current_price ?yf ''NOPE'' = Inr 0"
    by (simp_all add: get_current_price_def get_current_price_try_def)
  have b: "current_price_of ?yf ''AAA'' = 8"
    by (simp add: current_price_of_def a)
  show ?thesis
    using create_holding_validates_ticker [of ?yf 500 "\<lparr>c_ticker = ''AAA'', c_shares = 10, c_purchase_price = 5\<rparr>" ?db]
      create_holding_validates_ticker [of ?yf 500 "\<lparr>c_ticker = ''NOPE'', c_shares = 10, c_purchase_price = 5\<rparr>" ?db]
    by (simp add: a b create_holding_def db_add_def db_commit_def next_id_def)
qed

text \<open>
  Claim C7. Deleting a holding by id answers with the 404 error \<open>Holding not found\<close>
  exactly when no stored holding has that id, and then the tables are unchanged;
  deleting an existing holding removes the rows with that id from the holdings table, so
  a subsequent listing has the ids of the holdings that were stored, without the deleted
  one.
\<close>

theorem delete_holding_not_found_or_removed:
  "(fst (delete_holding holding_id db) = Inl (HTTPException 404 ''Holding not found'')
      \<longleftrightarrow> holding_id \<notin> h_id ` set (holdings db))
   \<and> (holding_id \<notin> h_id ` set (holdings db)
        \<longrightarrow> delete_holding holding_id db = (Inl (HTTPException 404 ''Holding not found''), db))
   \<and> (holding_id \<in> h_id ` set (holdings db)
        \<longrightarrow> fst (delete_holding holding_id db) = Inr ''Holding deleted''
            \<and> holdings (snd (delete_holding holding_id db))
                = filter (\<lambda>h. h_id h \<noteq> holding_id) (holdings db)
            \<and> (\<exists>rs. get_holdings yf (snd (delete_holding holding_id db)) = Inr rs
                  \<and> holding_id \<notin> r_id ` set rs
                  \<and> map r_id rs = filter (\<lambda>i. i \<noteq> holding_id) (map h_id (holdings db))))"
proof (cases "holding_id \<in> h_id ` set (holdings db)")
  case False
  then show ?thesis by (simp add: delete_missing)
next
  case True
  note d = delete_present [OF True]
  let ?db' = "snd (delete_holding holding_id db)"
  have h: "holdings ?db' = filter (\<lambda>h. h_id h \<noteq> holding_id) (holdings db)"
    by (simp add: d)
  from get_holdings_ids [of yf ?db'] obtain rs where
    rs: "get_holdings yf ?db' = Inr rs" "map r_id rs = map h_id (holdings ?db')"
    by blast
  have m: "map r_id rs = filter (\<lambda>i. i \<noteq> holding_id) (map h_id (holdings db))"
    by (simp add: rs(2) h filter_map comp_def)
  have "set (map r_id rs) = {i \<in> h_id ` set (holdings db). i \<noteq> holding_id}"
    by (simp only: m set_filter set_map)
  then have n: "holding_id \<notin> r_id ` set rs"
    by auto
  have "fst (delete_holding holding_id db) = Inr ''Holding deleted''"
    by (simp add: d)
  with h rs(1) m n True show ?thesis by auto
qed

theorem delete_holding_not_found_or_removed_witness:
  "delete_holding 7
      \<lparr>holdings = [\<lparr>h_id = 1, h_ticker = ''AAA'', h_shares = 10, h_purchase_price = 5, h_created_at = 0\<rparr>,
                   \<lparr>h_id = 2, h_ticker = ''BBB'', h_shares = 3, h_purchase_price = 7, h_created_at = 0\<rparr>],
       price_snapshots = [], portfolio_history = []\<rparr>
    = (Inl (HTTPException 404 ''Holding not found''),
       \<lparr>holdings = [\<lparr>h_id = 1, h_ticker = ''AAA'', h_shares = 10, h_purchase_price = 5, h_created_at = 0\<rparr>,
                   \<lparr>h_id = 2, h_ticker = ''BBB'', h_shares = 3, h_purchase_price = 7, h_created_at = 0\<rparr>],
        price_snapshots = [], portfolio_history = []\<rparr>)
   \<and> delete_holding 1
      \<lparr>holdings = [\<lparr>h_id = 1, h_ticker = ''AAA'', h_shares = 10, h_purchase_price = 5, h_created_at = 0\<rparr>,
                   \<lparr>h_id = 2, h_ticker = ''BBB'', h_shares = 3, h_purchase_price = 7, h_created_at = 0\<rparr>],
       price_snapshots = [], portfolio_history = []\<rparr>
    = (Inr ''Holding deleted'',
       \<lparr>holdings = [\<lparr>h_id = 2, h_ticker = ''BBB'', h_shares = 3, h_purchase_price = 7, h_created_at = 0\<rparr>],
        price_snapshots = [], portfolio_history = []\<rparr>)
   \<and> get_holdings (\<lambda>t. YfFrame [8])
       \<lparr>holdings = [\<lparr>h_id = 2, h_ticker = ''BBB'', h_shares = 3, h_purchase_price = 7, h_created_at = 0\<rparr>],
        price_snapshots = [], portfolio_history = []\<rparr>
    = Inr [\<lparr>r_id = 2, r_ticker = ''BBB'', r_shares = 3, r_purchase_price = 7, r_current_price = 8,
            r_current_value = 24, r_total_cost = 21, r_created_at = 0\<rparr>]"
proof -
  let ?db = "\<lparr>holdings = [\<lparr>h_id = 1, h_ticker = ''AAA'', h_shares = 10, h_purchase_price = 5, h_created_at = 0\<rparr>,
                   \<lparr>h_id = 2, h_ticker = ''BBB'', h_shares = 3, h_purchase_price = 7, h_created_at = 0\<rparr>],
       price_snapshots = [], portfolio_history = []\<rparr>"
  show ?thesis
    using delete_holding_not_found_or_removed [of 7 ?db "\<lambda>t. YfFrame [8]"]
      delete_holding_not_found_or_removed [of 1 ?db "\<lambda>t. YfFrame [8]"]
    by (simp add: delete_holding_def db_add_def db_commit_def get_holdings_def
        get_current_price_def get_current_price_try_def)
qed

section \<open>What happens to snapshot rows\<close>

lemma loop_session:
  "\<exists>xs. fst (snd (snapshot_loop yf clk fault i hs (s, pv, pinv)))
          = s @ map (\<lambda>(a, b, c). NewPriceSnapshot a b c) xs"
proof (induction hs arbitrary: i s pv pinv)
  case Nil
  show ?case by (rule exI [of _ "[]"]) simp
next
  case (Cons h hs)
  let ?cp = "current_price_of yf (h_ticker h)"
  let ?s' = "s @ [NewPriceSnapshot (h_id h) ?cp (clk i)]"
  consider (fetch) "fault = Some (AtFetch i)"
    | (acc) "fault \<noteq> Some (AtFetch i)" "fault = Some (AtAccumulate i)"
    | (go) "fault \<noteq> Some (AtFetch i)" "fault \<noteq> Some (AtAccumulate i)"
    by blast
  then show ?case
  proof cases
    case fetch
    show ?thesis by (rule exI [of _ "[]"]) (simp add: fetch)
  next
    case acc
    show ?thesis
      by (rule exI [of _ "[(h_id h, ?cp, clk i)]"]) (simp add: acc get_current_price_Inr db_add_def)
  next
    case go
    from Cons.IH [of "Suc i" ?s' "pv + ?cp * h_shares h" "pinv + h_purchase_price h * h_shares h"]
    obtain xs where
      x: "fst (snd (snapshot_loop yf clk fault (Suc i) hs
                (?s', pv + ?cp * h_shares h, pinv + h_purchase_price h * h_shares h)))
          = ?s' @ map (\<lambda>(a, b, c). NewPriceSnapshot a b c) xs"
      by blast
    show ?thesis
      by (rule exI [of _ "(h_id h, ?cp, clk i) # xs"])
        (simp add: go get_current_price_Inr db_add_def x)
  qed
qed

lemma job_only_appends:
  "\<exists>new. price_snapshots (snd (update_price_snapshots yf clk fault db)) = price_snapshots db @ new"
proof (cases "fst (update_price_snapshots yf clk fault db) = []")
  case False
  then have "snd (update_price_snapshots yf clk fault db) = db"
    by (rule job_logged_keeps_tables)
  then show ?thesis by simp
next
  case True
  obtain exc s pv pinv where
    l: "snapshot_loop yf clk fault 0 (holdings db) ([], 0, 0) = (exc, s, pv, pinv)"
    by (cases "snapshot_loop yf clk fault 0 (holdings db) ([], 0, 0)") auto
  from loop_session [of yf clk fault 0 "holdings db" "[]" 0 0] l obtain xs where
    s: "s = map (\<lambda>(a, b, c). NewPriceSnapshot a b c) xs"
    by auto
  from flush_snapshots [of db xs] obtain new where
    n: "foldl flush db s = db\<lparr>price_snapshots := price_snapshots db @ new\<rparr>"
    unfolding s by blast
  have "snd (update_price_snapshots yf clk fault db) = db
        \<or> snd (update_price_snapshots yf clk fault db)
            = db_commit (db_add (NewPortfolioHistory (clk (length (holdings db))) pv pinv (pv - pinv)) s) db"
    by (auto simp: update_price_snapshots_def update_price_snapshots_try_def Let_def l
        split: option.splits)
  then show ?thesis
  proof
    assume "snd (update_price_snapshots yf clk fault db) = db"
    then show ?thesis by simp
  next
    assume "snd (update_price_snapshots yf clk fault db)
            = db_commit (db_add (NewPortfolioHistory (clk (length (holdings db))) pv pinv (pv - pinv)) s) db"
    then show ?thesis by (simp add: db_commit_def db_add_def n)
  qed
qed

lemma create_keeps_snapshots:
  "price_snapshots (snd (create_holding yf now holding db)) = price_snapshots db"
  by (auto simp: create_holding_def db_add_def db_commit_def Let_def split: sum.splits)

lemma delete_snapshots:
  "price_snapshots (snd (delete_holding holding_id db)) = price_snapshots db
   \<or> price_snapshots (snd (delete_holding holding_id db))
       = map (\<lambda>s. if ps_holding_id s = Some holding_id then s\<lparr>ps_holding_id := None\<rparr> else s)
           (price_snapshots db)"
proof (cases "holding_id \<in> h_id ` set (holdings db)")
  case True
  then show ?thesis by (simp add: delete_present)
next
  case False
  then show ?thesis by (simp add: delete_missing)
qed

lemma delete_keeps_history:
  "portfolio_history (snd (delete_holding holding_id db)) = portfolio_history db"
proof (cases "holding_id \<in> h_id ` set (holdings db)")
  case True
  then show ?thesis by (simp add: delete_present)
next
  case False
  then show ?thesis by (simp add: delete_missing)
qed

text \<open>
  Claim C9, as the code has it. Creating a holding leaves the snapshot table as it is
  and the snapshot job only appends to it (whether or not it raises), so snapshot rows
  are created by the job alone and no operation removes one. Deleting a holding removes
  no snapshot row either: the table keeps its length and every row keeps its id, price
  and date; the rows of other holdings are unchanged, the rows of the deleted holding
  stay with their \<open>holding_id\<close> cleared, and the \<open>PortfolioHistory\<close> rows are unchanged.
\<close>

theorem snapshot_rows_are_never_removed:
  "price_snapshots (snd (create_holding yf now holding db)) = price_snapshots db
   \<and> (\<exists>new. price_snapshots (snd (update_price_snapshots yf utcnow fault db))
              = price_snapshots db @ new)
   \<and> length (price_snapshots (snd (delete_holding holding_id db))) = length (price_snapshots db)
   \<and> map ps_id (price_snapshots (snd (delete_holding holding_id db))) = map ps_id (price_snapshots db)
   \<and> map ps_price (price_snapshots (snd (delete_holding holding_id db)))
       = map ps_price (price_snapshots db)
   \<and> map ps_date (price_snapshots (snd (delete_holding holding_id db)))
       = map ps_date (price_snapshots db)
   \<and> (\<forall>k<length (price_snapshots db).
         ps_holding_id (price_snapshots db ! k) \<noteq> Some holding_id
         \<longrightarrow> price_snapshots (snd (delete_holding holding_id db)) ! k = price_snapshots db ! k)
   \<and> (holding_id \<in> h_id ` set (holdings db) \<longrightarrow>
       (\<forall>k<length (price_snapshots db).
         ps_holding_id (price_snapshots db ! k) = Some holding_id
         \<longrightarrow> ps_holding_id (price_snapshots (snd (delete_holding holding_id db)) ! k) = None))
   \<and> portfolio_history (snd (delete_holding holding_id db)) = portfolio_history db"
proof -
  let ?f = "\<lambda>s. if ps_holding_id s = Some holding_id then s\<lparr>ps_holding_id := None\<rparr> else s"
  let ?after = "price_snapshots (snd (delete_holding holding_id db))"
  have cases: "?after = price_snapshots db \<or> ?after = map ?f (price_snapshots db)"
    by (rule delete_snapshots)
  have 1: "length ?after = length (price_snapshots db)"
    using cases by auto
  have 2: "map ps_id ?after = map ps_id (price_snapshots db)"
    using cases by (auto simp: comp_def)
  have 3: "map ps_price ?after = map ps_price (price_snapshots db)"
    using cases by (auto simp: comp_def)
  have 4: "map ps_date ?after = map ps_date (price_snapshots db)"
    using cases by (auto simp: comp_def)
  have 5: "\<forall>k<length (price_snapshots db).
         ps_holding_id (price_snapshots db ! k) \<noteq> Some holding_id
         \<longrightarrow> ?after ! k = price_snapshots db ! k"
    using cases by auto
  have 6: "holding_id \<in> h_id ` set (holdings db) \<longrightarrow>
       (\<forall>k<length (price_snapshots db).
         ps_holding_id (price_snapshots db ! k) = Some holding_id
         \<longrightarrow> ps_holding_id (?after ! k) = None)"
    by (simp add: delete_present)
  from create_keeps_snapshots [of yf now holding db] job_only_appends [of yf utcnow fault db]
    1 2 3 4 5 6 delete_keeps_history [of holding_id db]
  show ?thesis by blast
qed

theorem snapshot_rows_are_never_removed_witness:
  "delete_holding 1
      \<lparr>holdings = [\<lparr>h_id = 1, h_ticker = ''AAA'', h_shares = 10, h_purchase_price = 5, h_created_at = 0\<rparr>,
                   \<lparr>h_id = 2, h_ticker = ''BBB'', h_shares = 3, h_purchase_price = 7, h_created_at = 0\<rparr>],
       price_snapshots = [\<lparr>ps_id = 1, ps_holding_id = Some 1, ps_price = 8, ps_date = 100\<rparr>,
                          \<lparr>ps_id = 2, ps_holding_id = Some 2, ps_price = 4, ps_date = 101\<rparr>],
       portfolio_history = [\<lparr>ph_id = 1, ph_date = 102, ph_total_value = 92,
                             ph_total_invested = 71, ph_profit_loss = 21\<rparr>]\<rparr>
    = (Inr ''Holding deleted'',
       \<lparr>holdings = [\<lparr>h_id = 2, h_ticker = ''BBB'', h_shares = 3, h_purchase_price = 7, h_created_at = 0\<rparr>],
        price_snapshots = [\<lparr>ps_id = 1, ps_holding_id = None, ps_price = 8, ps_date = 100\<rparr>,
                           \<lparr>ps_id = 2, ps_holding_id = Some 2, ps_price = 4, ps_date = 101\<rparr>],
        portfolio_history = [\<lparr>ph_id = 1, ph_date = 102, ph_total_value = 92,
                              ph_total_invested = 71, ph_profit_loss = 21\<rparr>]\<rparr>)"
  using snapshot_rows_are_never_removed [of "\<lambda>t. YfFrame [8]" 0
      "\<lparr>c_ticker = ''AAA'', c_shares = 1, c_purchase_price = 1\<rparr>"
      "\<lparr>holdings = [\<lparr>h_id = 1, h_ticker = ''AAA'', h_shares = 10, h_purchase_price = 5, h_created_at = 0\<rparr>,
                   \<lparr>h_id = 2, h_ticker = ''BBB'', h_shares = 3, h_purchase_price = 7, h_created_at = 0\<rparr>],
       price_snapshots = [\<lparr>ps_id = 1, ps_holding_id = Some 1, ps_price = 8, ps_date = 100\<rparr>,
                          \<lparr>ps_id = 2, ps_holding_id = Some 2, ps_price = 4, ps_date = 101\<rparr>],
       portfolio_history = [\<lparr>ph_id = 1, ph_date = 102, ph_total_value = 92,
                             ph_total_invested = 71, ph_profit_loss = 21\<rparr>]\<rparr>"
      "\<lambda>k. int k" None 1]
  by (simp add: delete_holding_def db_add_def db_commit_def)

text \<open>
  The claim as the specification words it fails where it says that deleting a holding
  removes that holding's snapshot rows: below, holding 1 is deleted and its snapshot row
  is still stored.
\<close>

theorem delete_holding_cascade_counterexample:
  "price_snapshots (snd (delete_holding 1
      \<lparr>holdings = [\<lparr>h_id = 1, h_ticker = ''AAA'', h_shares = 10, h_purchase_price = 5, h_created_at = 0\<rparr>],
       price_snapshots = [\<lparr>ps_id = 1, ps_holding_id = Some 1, ps_price = 8, ps_date = 100\<rparr>],
       portfolio_history = []\<rparr>))
    = [\<lparr>ps_id = 1, ps_holding_id = None, ps_price = 8, ps_date = 100\<rparr>]
   \<and> fst (delete_holding 1
      \<lparr>holdings = [\<lparr>h_id = 1, h_ticker = ''AAA'', h_shares = 10, h_purchase_price = 5, h_created_at = 0\<rparr>],
       price_snapshots = [\<lparr>ps_id = 1, ps_holding_id = Some 1, ps_price = 8, ps_date = 100\<rparr>],
       portfolio_history = []\<rparr>) = Inr ''Holding deleted''"
  by (simp add: delete_holding_def db_add_def db_commit_def)

end
